theory Spec2Isabelle
  imports Main "HOL-Library.Word" "HOL-Library.Monad_Syntax"
begin

section \<open>Data model of the mailingo package\<close>

text \<open>
  The structs of the package are records. A field keeps its Go name where that name is
  unique in the package; \<open>Name\<close>, \<open>Link\<close>, \<open>Body\<close>, \<open>Data\<close> and the like occur in
  several structs and carry the struct's name as a prefix.
\<close>

record Product =
  Product_Name :: string
  Product_Link :: string
  Product_Logo :: string
  Product_Copyright :: string

record Theme =
  PrimaryColor :: string
  BackgroundColor :: string
  TextColor :: string
  ButtonColor :: string
  ButtonTextColor :: string

record Entry =
  Key :: string
  Value :: string

record Columns =
  CustomWidth :: "string \<rightharpoonup> string"
  CustomAlignment :: "string \<rightharpoonup> string"

record Table =
  Table_Data :: "Entry list list"
  Table_Columns :: Columns

record Button =
  Button_Text :: string
  Button_Link :: string
  Button_Color :: string

record Action =
  Instructions :: string
  Action_Button :: Button
  InvertedButton :: bool

record Attachment =
  Attachment_Name :: string
  Attachment_URL :: string
  Attachment_Size :: string
  Attachment_Type :: string

record SMTPAttachment =
  Filename :: string
  Content :: "8 word list"
  ContentType :: string

record Body =
  Body_Name :: string
  Intros :: "string list"
  Dictionary :: "Entry list"
  Body_Table :: Table
  Actions :: "Action list"
  Outros :: "string list"
  Attachments :: "Attachment list"
  Greeting :: string
  Signature :: string
  Title :: string

record Email =
  Email_Body :: Body
  SMTPAttachments :: "SMTPAttachment list"

subsection \<open>Errors\<close>

text \<open>
  A Go \<open>error\<close> is a value: either one made by a collaborator, with its message, or one
  made by \<open>fmt.Errorf\<close> with the verb \<open>%w\<close>, which keeps the wrapped error beside the
  formatted message.
\<close>

datatype error = ErrorString string | Wrapped string error

fun Error :: "error \<Rightarrow> string" where
  "Error (ErrorString s) = s"
| "Error (Wrapped s e) = s"

definition Errorf_w :: "string \<Rightarrow> error \<Rightarrow> error" where
  "Errorf_w prefix e = Wrapped (prefix @ Error e) e"

subsection \<open>Collaborators: the message catalog and the template engine\<close>

text \<open>
  The go-i18n bundle and localizer and the html/template engine are libraries outside the
  package. They enter the model through what the package calls on them.

  \<^item> \<open>localizer.Localize\<close> with a \<open>MessageID\<close> returns a string and an error. Nothing is
    assumed about which keys it knows, which text it returns (the text of a message may be
    empty) or what it returns beside a non-nil error.
  \<^item> \<open>i18n.NewLocalizer(bundle, lang)\<close> gives the localizer of a bundle for a language tag.
  \<^item> \<open>template.Execute(&buf, data)\<close> writes to the buffer and returns an error; a failed
    execution may have written part of the document already.
\<close>

type_synonym Localizer = "string \<Rightarrow> string \<times> error option"

type_synonym Bundle = "string \<Rightarrow> Localizer"

definition NewLocalizer :: "Bundle \<Rightarrow> string \<Rightarrow> Localizer" where
  "NewLocalizer b lang = b lang"

definition Localize :: "Localizer \<Rightarrow> string \<Rightarrow> string \<times> error option" where
  "Localize localizer messageID = localizer messageID"

text \<open>
  Modelled from the spec: \<open>i18n.NewBundle\<close> is the bundle of a mailer before any catalog was
  loaded. The library is not part of the sources; the spec says that with no catalog
  loaded at all every lookup fails.
\<close>

definition NewBundle :: Bundle where
  "NewBundle = (\<lambda>lang messageID. ('''', Some (ErrorString (''message '' @ messageID @ '' not found''))))"

subsection \<open>The context handed to the template\<close>

text \<open>
  \<open>processTranslations\<close> returns a nested \<open>map[string]interface{}\<close> with fixed keys. Each
  map literal is a record with one field for each key.
\<close>

record ProductData =
  data_Product_Name :: string
  data_Product_Link :: string
  data_Product_Logo :: string
  data_Product_Copyright :: string

record TableData =
  data_Table_Data :: "Entry list list"
  data_Table_Columns :: Columns

record BodyData =
  data_Name :: string
  data_Greeting :: string
  data_Signature :: string
  data_Title :: string
  data_Intros :: "string list"
  data_Dictionary :: "Entry list"
  data_Table :: TableData
  data_Actions :: "Action list"
  data_Outros :: "string list"
  data_Attachments :: "Attachment list"

record TemplateData =
  data_Product :: ProductData
  data_Theme :: Theme
  data_CustomCSS :: string
  data_Body :: BodyData

type_synonym Template = "TemplateData \<Rightarrow> string \<times> error option"

definition Execute :: "Template \<Rightarrow> TemplateData \<Rightarrow> string \<times> error option" where
  "Execute t data = t data"

text \<open>
  The fields of \<open>Mailer\<close> carry the struct's name: \<open>bundle\<close> is a keyword of Isabelle
  and \<open>product\<close> a constant of HOL.
\<close>

record Mailer =
  Mailer_bundle :: Bundle
  Mailer_product :: Product
  Mailer_theme :: Theme
  Mailer_template :: Template
  Mailer_customCSS :: string

section \<open>The translator\<close>

text \<open>
  \<open>translate\<close>: the default key replaces an empty key, an empty key returns at once, and a
  failed lookup returns the key.
\<close>

definition translate :: "Mailer \<Rightarrow> Localizer \<Rightarrow> string \<Rightarrow> string \<Rightarrow> string" where
  "translate m localizer key defaultKey =
     (let key = (if key = '''' \<and> defaultKey \<noteq> '''' then defaultKey else key) in
      if key = '''' then ''''
      else
        (let (result, err) = Localize localizer key in
         if err \<noteq> None then key else result))"

section \<open>The translation projector\<close>

text \<open>
  \<open>make([]T, n)\<close> is a slice of \<open>n\<close> zero values. An assignment \<open>out[i] = v\<close> panics when
  \<open>i\<close> is not below \<open>len(out)\<close>; the panic is the value \<open>None\<close>.

  \<open>range_assign f i xs out\<close> is the loop \<open>for i, x := range xs { out[i] = f(x) }\<close> from
  index \<open>i\<close> on; the right-hand side \<open>f\<close> may panic itself (the table loop is nested).
\<close>

definition make_slice :: "nat \<Rightarrow> 'a \<Rightarrow> 'a list" where
  "make_slice n zero = replicate n zero"

fun range_assign :: "('a \<Rightarrow> 'b option) \<Rightarrow> nat \<Rightarrow> 'a list \<Rightarrow> 'b list \<Rightarrow> 'b list option" where
  "range_assign f i [] out = Some out"
| "range_assign f i (x # xs) out =
     (if i < length out then
        (case f x of
           None \<Rightarrow> None
         | Some v \<Rightarrow> range_assign f (Suc i) xs (out[i := v]))
      else None)"

definition zero_Entry :: Entry where
  "zero_Entry = \<lparr>Key = '''', Value = ''''\<rparr>"

definition zero_Action :: Action where
  "zero_Action =
     \<lparr>Instructions = '''',
      Action_Button = \<lparr>Button_Text = '''', Button_Link = '''', Button_Color = ''''\<rparr>,
      InvertedButton = False\<rparr>"

definition zero_Attachment :: Attachment where
  "zero_Attachment =
     \<lparr>Attachment_Name = '''', Attachment_URL = '''', Attachment_Size = '''', Attachment_Type = ''''\<rparr>"

definition processTranslations :: "Mailer \<Rightarrow> Email \<Rightarrow> Localizer \<Rightarrow> TemplateData option" where
  "processTranslations m email localizer =
     (let body = Email_Body email in
      do {
        intros \<leftarrow> range_assign (\<lambda>intro. Some (translate m localizer intro ''''))
                    0 (Intros body) (make_slice (length (Intros body)) '''');
        outros \<leftarrow> range_assign (\<lambda>outro. Some (translate m localizer outro ''''))
                    0 (Outros body) (make_slice (length (Outros body)) '''');
        dictionary \<leftarrow> range_assign
                    (\<lambda>entry. Some \<lparr>Key = translate m localizer (Key entry) '''',
                                    Value = Value entry\<rparr>)
                    0 (Dictionary body) (make_slice (length (Dictionary body)) zero_Entry);
        actions \<leftarrow> range_assign
                    (\<lambda>action. Some
                       \<lparr>Instructions = translate m localizer (Instructions action) '''',
                        Action_Button =
                          \<lparr>Button_Text = translate m localizer (Button_Text (Action_Button action)) '''',
                           Button_Link = Button_Link (Action_Button action),
                           Button_Color = Button_Color (Action_Button action)\<rparr>,
                        InvertedButton = InvertedButton action\<rparr>)
                    0 (Actions body) (make_slice (length (Actions body)) zero_Action);
        tableData \<leftarrow> range_assign
                    (\<lambda>row. range_assign
                       (\<lambda>cell. Some \<lparr>Key = translate m localizer (Key cell) '''',
                                      Value = Value cell\<rparr>)
                       0 row (make_slice (length row) zero_Entry))
                    0 (Table_Data (Body_Table body)) (make_slice (length (Table_Data (Body_Table body))) []);
        attachments \<leftarrow> range_assign (\<lambda>attachment. Some attachment)
                    0 (Attachments body) (make_slice (length (Attachments body)) zero_Attachment);
        Some
          \<lparr>data_Product =
             \<lparr>data_Product_Name = Product_Name (Mailer_product m),
              data_Product_Link = Product_Link (Mailer_product m),
              data_Product_Logo = Product_Logo (Mailer_product m),
              data_Product_Copyright =
                translate m localizer (Product_Copyright (Mailer_product m)) ''product.copyright''\<rparr>,
           data_Theme = Mailer_theme m,
           data_CustomCSS = Mailer_customCSS m,
           data_Body =
             \<lparr>data_Name = Body_Name body,
              data_Greeting = translate m localizer (Greeting body) ''greeting'',
              data_Signature = translate m localizer (Signature body) ''signature'',
              data_Title = translate m localizer (Title body) '''',
              data_Intros = intros,
              data_Dictionary = dictionary,
              data_Table =
                \<lparr>data_Table_Data = tableData,
                 data_Table_Columns = Table_Columns (Body_Table body)\<rparr>,
              data_Actions = actions,
              data_Outros = outros,
              data_Attachments = attachments\<rparr>\<rparr>
      })"

section \<open>The two serializers\<close>

text \<open>
  The methods have a pointer receiver, so each returns the mailer as it leaves it, after the
  document and the error. \<open>None\<close> is a panic.
\<close>

definition GenerateHTML :: "Mailer \<Rightarrow> Email \<Rightarrow> string \<Rightarrow> (string \<times> error option \<times> Mailer) option" where
  "GenerateHTML m email lang =
     (let localizer = NewLocalizer (Mailer_bundle m) lang in
      case processTranslations m email localizer of
        None \<Rightarrow> None
      | Some data \<Rightarrow>
          (let (buf, err) = Execute (Mailer_template m) data in
           if err \<noteq> None then
             Some ('''', Some (Errorf_w ''failed to execute email template: '' (the err)), m)
           else Some (buf, None, m)))"

definition WriteString :: "string \<Rightarrow> string \<Rightarrow> string" where
  "WriteString buf s = buf @ s"

text \<open>
  \<open>GeneratePlainText\<close> writes to one buffer from top to bottom. A \<open>for ... range\<close> loop
  over a slice is a left fold of its body over the buffer.
\<close>

definition GeneratePlainText :: "Mailer \<Rightarrow> Email \<Rightarrow> string \<Rightarrow> string \<times> error option \<times> Mailer" where
  "GeneratePlainText m email lang =
     (let localizer = NewLocalizer (Mailer_bundle m) lang;
          buf = '''';
          greeting = translate m localizer (Greeting (Email_Body email)) ''greeting'';
          buf = WriteString buf
                  (greeting @ '' '' @ Body_Name (Email_Body email) @ '',\<newline>\<newline>'');
          buf = (if Title (Email_Body email) \<noteq> '''' then
                   (let title = translate m localizer (Title (Email_Body email)) '''' in
                    WriteString buf (title @ ''\<newline>\<newline>''))
                 else buf);
          buf = foldl (\<lambda>buf intro.
                   let txt = translate m localizer intro '''' in
                   WriteString buf (txt @ ''\<newline>\<newline>''))
                  buf (Intros (Email_Body email));
          buf = foldl (\<lambda>buf entry.
                   let key = translate m localizer (Key entry) '''' in
                   WriteString buf (key @ '': '' @ Value entry @ ''\<newline>''))
                  buf (Dictionary (Email_Body email));
          buf = (if length (Dictionary (Email_Body email)) > 0 then
                   WriteString buf ''\<newline>''
                 else buf);
          buf = foldl (\<lambda>buf action.
                   let instructions = translate m localizer (Instructions action) '''';
                       buttonText = translate m localizer (Button_Text (Action_Button action)) ''''
                   in WriteString buf
                        (instructions @ ''\<newline>'' @ buttonText @ '': '' @
                         Button_Link (Action_Button action) @ ''\<newline>\<newline>''))
                  buf (Actions (Email_Body email));
          buf = foldl (\<lambda>buf outro.
                   let txt = translate m localizer outro '''' in
                   WriteString buf (txt @ ''\<newline>\<newline>''))
                  buf (Outros (Email_Body email));
          buf = (if length (Attachments (Email_Body email)) > 0 then
                   (let buf = WriteString buf ''Attachments:\<newline>'';
                        buf = foldl (\<lambda>buf attachment.
                                 let buf = WriteString buf (''  - '' @ Attachment_Name attachment);
                                     buf = (if Attachment_Type attachment \<noteq> '''' \<or>
                                               Attachment_Size attachment \<noteq> '''' then
                                              (let buf = WriteString buf '' ('';
                                                   buf = (if Attachment_Type attachment \<noteq> '''' then
                                                            WriteString buf (Attachment_Type attachment)
                                                          else buf);
                                                   buf = (if Attachment_Size attachment \<noteq> '''' then
                                                            (let buf = (if Attachment_Type attachment \<noteq> '''' then
                                                                          WriteString buf '', ''
                                                                        else buf)
                                                             in WriteString buf (Attachment_Size attachment))
                                                          else buf)
                                               in WriteString buf '')'')
                                            else buf)
                                 in WriteString buf
                                      (''\<newline>    '' @ Attachment_URL attachment @ ''\<newline>''))
                                buf (Attachments (Email_Body email))
                    in WriteString buf ''\<newline>'')
                 else buf);
          signature = translate m localizer (Signature (Email_Body email)) ''signature'';
          buf = WriteString buf
                  (signature @ '',\<newline>'' @ Product_Name (Mailer_product m) @ ''\<newline>\<newline>'');
          copyright = translate m localizer (Product_Copyright (Mailer_product m)) ''product.copyright'';
          buf = WriteString buf copyright
      in (buf, None, m))"

section \<open>Construction\<close>

text \<open>
  \<open>options.Config\<close>: a nil template pointer and a nil \<open>fs.FS\<close> are \<open>None\<close>. An option is a
  function that writes to the configuration it is given.

  A file system enters through \<open>fs.ReadFile\<close>, and the parser of html/template through
  \<open>template.New("email").Parse\<close>; the parser and the embedded \<open>templatesFS\<close> are arguments
  of \<open>New\<close>. A panic of \<open>New\<close> is \<open>Inl\<close> of its message.
\<close>

type_synonym FS = "string \<Rightarrow> error + string"

definition ReadFile :: "FS \<Rightarrow> string \<Rightarrow> error + string" where
  "ReadFile fsys path = fsys path"

record Config =
  CustomTemplate :: "Template option"
  CustomTemplateText :: string
  CustomTemplateFS :: "FS option"
  CustomTemplatePath :: string
  CustomCSS :: string

type_synonym Option = "Config \<Rightarrow> Config"

definition zero_Config :: Config where
  "zero_Config =
     \<lparr>CustomTemplate = None, CustomTemplateText = '''', CustomTemplateFS = None,
      CustomTemplatePath = '''', CustomCSS = ''''\<rparr>"

definition WithCustomTemplate :: "Template option \<Rightarrow> Option" where
  "WithCustomTemplate tmpl = (\<lambda>c. c\<lparr>CustomTemplate := tmpl\<rparr>)"

definition WithCustomTemplateString :: "string \<Rightarrow> Option" where
  "WithCustomTemplateString tmplStr = (\<lambda>c. c\<lparr>CustomTemplateText := tmplStr\<rparr>)"

definition WithCustomTemplateFile :: "FS option \<Rightarrow> string \<Rightarrow> Option" where
  "WithCustomTemplateFile filesystem path =
     (\<lambda>c. c\<lparr>CustomTemplateFS := filesystem, CustomTemplatePath := path\<rparr>)"

definition WithCustomCSS :: "string \<Rightarrow> Option" where
  "WithCustomCSS css = (\<lambda>c. c\<lparr>CustomCSS := css\<rparr>)"

definition apply_options :: "Option list \<Rightarrow> Config" where
  "apply_options opts = foldl (\<lambda>config opt. opt config) zero_Config opts"

definition New ::
  "(string \<Rightarrow> error + Template) \<Rightarrow> FS \<Rightarrow> Product \<Rightarrow> Theme \<Rightarrow> Option list \<Rightarrow> string + Mailer" where
  "New Parse templatesFS product theme opts =
     (let bundle = NewBundle;
          config = apply_options opts;
          tmpl =
            (if CustomTemplate config \<noteq> None then Inr (the (CustomTemplate config))
             else if CustomTemplateText config \<noteq> '''' then
               (case Parse (CustomTemplateText config) of
                  Inl err \<Rightarrow> Inl (''failed to parse custom template: '' @ Error err)
                | Inr t \<Rightarrow> Inr t)
             else if CustomTemplateFS config \<noteq> None \<and> CustomTemplatePath config \<noteq> '''' then
               (case ReadFile (the (CustomTemplateFS config)) (CustomTemplatePath config) of
                  Inl err \<Rightarrow> Inl (''failed to read custom template file: '' @ Error err)
                | Inr content \<Rightarrow>
                    (case Parse content of
                       Inl err \<Rightarrow> Inl (''failed to parse custom template file: '' @ Error err)
                     | Inr t \<Rightarrow> Inr t))
             else
               (case ReadFile templatesFS ''templates/default.html'' of
                  Inl err \<Rightarrow> Inl (''failed to read default template: '' @ Error err)
                | Inr content \<Rightarrow>
                    (case Parse content of
                       Inl err \<Rightarrow> Inl (''failed to parse default template: '' @ Error err)
                     | Inr t \<Rightarrow> Inr t)))
      in case tmpl of
           Inl msg \<Rightarrow> Inl msg
         | Inr t \<Rightarrow>
             Inr \<lparr>Mailer_bundle = bundle, Mailer_product = product, Mailer_theme = theme,
                  Mailer_template = t, Mailer_customCSS = CustomCSS config\<rparr>)"

section \<open>The line layout of the specification\<close>

text \<open>
  These definitions follow the words of the specification, not the code: the lines of one
  display attachment, the attachment group, and the plain-text layout of a resolved
  context. \<open>with_title\<close> tells whether the title line is laid out.
\<close>

definition spec_attachment_lines :: "Attachment \<Rightarrow> string" where
  "spec_attachment_lines a =
     ''  - '' @ Attachment_Name a @
     (if Attachment_Type a \<noteq> '''' \<and> Attachment_Size a \<noteq> '''' then
        '' ('' @ Attachment_Type a @ '', '' @ Attachment_Size a @ '')''
      else if Attachment_Type a \<noteq> '''' then '' ('' @ Attachment_Type a @ '')''
      else if Attachment_Size a \<noteq> '''' then '' ('' @ Attachment_Size a @ '')''
      else '''') @
     ''\<newline>'' @
     ''    '' @ Attachment_URL a @ ''\<newline>''"

definition spec_attachments_block :: "Attachment list \<Rightarrow> string" where
  "spec_attachments_block atts =
     (if atts = [] then ''''
      else ''Attachments:\<newline>'' @ concat (map spec_attachment_lines atts) @ ''\<newline>'')"

definition spec_signature_block :: "string \<Rightarrow> string \<Rightarrow> string \<Rightarrow> string" where
  "spec_signature_block sig name copyright =
     sig @ '',\<newline>'' @ name @ ''\<newline>\<newline>'' @ copyright"

definition spec_plain_layout :: "bool \<Rightarrow> TemplateData \<Rightarrow> string" where
  "spec_plain_layout with_title d =
     (let b = data_Body d in
      data_Greeting b @ '' '' @ data_Name b @ '',\<newline>\<newline>'' @
      (if with_title then data_Title b @ ''\<newline>\<newline>'' else '''') @
      concat (map (\<lambda>t. t @ ''\<newline>\<newline>'') (data_Intros b)) @
      concat (map (\<lambda>en. Key en @ '': '' @ Value en @ ''\<newline>'') (data_Dictionary b)) @
      (if data_Dictionary b = [] then '''' else ''\<newline>'') @
      concat (map (\<lambda>a. Instructions a @ ''\<newline>'' @ Button_Text (Action_Button a) @ '': '' @
                        Button_Link (Action_Button a) @ ''\<newline>\<newline>'') (data_Actions b)) @
      concat (map (\<lambda>t. t @ ''\<newline>\<newline>'') (data_Outros b)) @
      spec_attachments_block (data_Attachments b) @
      spec_signature_block (data_Signature b) (data_Product_Name (data_Product d))
        (data_Product_Copyright (data_Product d)))"

section \<open>Concrete inputs\<close>

definition DefaultTheme :: Theme where
  "DefaultTheme =
     \<lparr>PrimaryColor = ''#3869D4'', BackgroundColor = ''#F2F4F6'', TextColor = ''#51545E'',
      ButtonColor = ''#3869D4'', ButtonTextColor = ''#FFFFFF''\<rparr>"

definition acme_product :: Product where
  "acme_product =
     \<lparr>Product_Name = ''Acme'', Product_Link = ''https://acme.com'', Product_Logo = '''',
      Product_Copyright = ''''\<rparr>"

text \<open>A catalog for \<open>en\<close> with two messages, and one whose message for the title has an empty text.\<close>

definition en_bundle :: Bundle where
  "en_bundle =
     (\<lambda>lang messageID.
        if lang = ''en'' \<and> messageID = ''greeting'' then (''Hello'', None)
        else if lang = ''en'' \<and> messageID = ''email.intro'' then (''Welcome aboard'', None)
        else NewBundle lang messageID)"


text \<open>A template that renders greeting, name and title, and one whose execution fails.\<close>

definition title_template :: Template where
  "title_template =
     (\<lambda>data. (''<p>'' @ data_Greeting (data_Body data) @ '' '' @ data_Name (data_Body data) @
               ''</p><h1>'' @ data_Title (data_Body data) @ ''</h1>'', None))"

definition failing_template :: Template where
  "failing_template = (\<lambda>data. (''<p>'', Some (ErrorString ''no such field'')))"

definition acme_mailer :: Mailer where
  "acme_mailer =
     \<lparr>Mailer_bundle = en_bundle, Mailer_product = acme_product, Mailer_theme = DefaultTheme,
      Mailer_template = title_template, Mailer_customCSS = ''''\<rparr>"

definition zero_Body :: Body where
  "zero_Body =
     \<lparr>Body_Name = '''', Intros = [], Dictionary = [],
      Body_Table = \<lparr>Table_Data = [],
                    Table_Columns = \<lparr>CustomWidth = Map.empty, CustomAlignment = Map.empty\<rparr>\<rparr>,
      Actions = [], Outros = [], Attachments = [],
      Greeting = '''', Signature = '''', Title = ''''\<rparr>"

definition report_pdf :: Attachment where
  "report_pdf =
     \<lparr>Attachment_Name = ''report.pdf'', Attachment_URL = ''https://acme.com/r'',
      Attachment_Size = ''2 MB'', Attachment_Type = ''PDF''\<rparr>"

definition notes_txt :: Attachment where
  "notes_txt =
     \<lparr>Attachment_Name = ''notes.txt'', Attachment_URL = ''https://acme.com/n'',
      Attachment_Size = '''', Attachment_Type = ''''\<rparr>"

definition welcome_email :: Email where
  "welcome_email =
     \<lparr>Email_Body = zero_Body
        \<lparr>Body_Name := ''Bob'', Intros := [''email.intro'', ''''],
         Dictionary := [\<lparr>Key = ''User'', Value = ''bob''\<rparr>],
         Actions := [\<lparr>Instructions = ''Confirm'',
                      Action_Button = \<lparr>Button_Text = ''Go'', Button_Link = ''https://acme.com/c'',
                                        Button_Color = ''''\<rparr>,
                      InvertedButton = False\<rparr>],
         Attachments := [report_pdf, notes_txt],
         Title := ''email.title''\<rparr>,
      SMTPAttachments = []\<rparr>"

definition invoice_file :: SMTPAttachment where
  "invoice_file =
     \<lparr>Filename = ''invoice.pdf'', Content = [0x25, 0x50, 0x44, 0x46],
      ContentType = ''application/pdf''\<rparr>"


definition failing_mailer :: Mailer where
  "failing_mailer = acme_mailer\<lparr>Mailer_template := failing_template\<rparr>"


text \<open>A parser that rejects one source text, and the embedded file system with the default skeleton.\<close>

definition literal_template :: "string \<Rightarrow> Template" where
  "literal_template src = (\<lambda>data. (src, None))"

definition source_parser :: "string \<Rightarrow> error + Template" where
  "source_parser src =
     (if src = ''{{'' then Inl (ErrorString ''unclosed action'')
      else Inr (literal_template src))"

definition embedded_fs :: FS where
  "embedded_fs =
     (\<lambda>path. if path = ''templates/default.html'' then Inr ''<html></html>''
             else Inl (ErrorString ''file does not exist''))"

section \<open>Loops as maps\<close>

lemma take_Suc_update: "i < length out \<Longrightarrow> take (Suc i) (out[i := v]) = take i out @ [v]"
  by (simp add: take_Suc_conv_app_nth)

text \<open>
  An index loop over a slice of the right length never leaves the slice, and fills it with
  the image of the source list.
\<close>

lemma range_assign_map:
  "length out = i + length xs \<Longrightarrow> (\<forall>x \<in> set xs. f x = Some (g x)) \<Longrightarrow>
   range_assign f i xs out = Some (take i out @ map g xs)"
proof (induction xs arbitrary: i out)
  case Nil
  then show ?case by simp
next
  case (Cons x xs)
  have lt: "i < length out" using Cons.prems(1) by simp
  have fx: "f x = Some (g x)" using Cons.prems(2) by simp
  have len: "length (out[i := g x]) = Suc i + length xs" using Cons.prems(1) by simp
  have rest: "\<forall>y \<in> set xs. f y = Some (g y)" using Cons.prems(2) by simp
  have "range_assign f (Suc i) xs (out[i := g x]) = Some (take (Suc i) (out[i := g x]) @ map g xs)"
    by (rule Cons.IH [OF len rest])
  then show ?case using lt fx by (simp add: take_Suc_update)
qed

lemma range_assign_make:
  "range_assign (\<lambda>x. Some (g x)) 0 xs (make_slice (length xs) z) = Some (map g xs)"
  using range_assign_map [of "make_slice (length xs) z" 0 xs "\<lambda>x. Some (g x)" g]
  by (simp add: make_slice_def)

lemma range_assign_rows:
  "range_assign (\<lambda>row. range_assign (\<lambda>cell. Some (h cell)) 0 row (make_slice (length row) z))
     0 rows (make_slice (length rows) z') = Some (map (map h) rows)"
proof -
  have len: "length (make_slice (length rows) z') = 0 + length rows"
    by (simp add: make_slice_def)
  have inner: "\<forall>row \<in> set rows.
      range_assign (\<lambda>cell. Some (h cell)) 0 row (make_slice (length row) z) = Some (map h row)"
    by (simp add: range_assign_make)
  show ?thesis
    using range_assign_map [OF len inner] by simp
qed

lemma processTranslations_eq:
  "processTranslations m email localizer =
     Some
       \<lparr>data_Product =
          \<lparr>data_Product_Name = Product_Name (Mailer_product m),
           data_Product_Link = Product_Link (Mailer_product m),
           data_Product_Logo = Product_Logo (Mailer_product m),
           data_Product_Copyright =
             translate m localizer (Product_Copyright (Mailer_product m)) ''product.copyright''\<rparr>,
        data_Theme = Mailer_theme m,
        data_CustomCSS = Mailer_customCSS m,
        data_Body =
          \<lparr>data_Name = Body_Name (Email_Body email),
           data_Greeting = translate m localizer (Greeting (Email_Body email)) ''greeting'',
           data_Signature = translate m localizer (Signature (Email_Body email)) ''signature'',
           data_Title = translate m localizer (Title (Email_Body email)) '''',
           data_Intros = map (\<lambda>s. translate m localizer s '''') (Intros (Email_Body email)),
           data_Dictionary =
             map (\<lambda>en. \<lparr>Key = translate m localizer (Key en) '''', Value = Value en\<rparr>)
               (Dictionary (Email_Body email)),
           data_Table =
             \<lparr>data_Table_Data =
                map (map (\<lambda>cell. \<lparr>Key = translate m localizer (Key cell) '''', Value = Value cell\<rparr>))
                  (Table_Data (Body_Table (Email_Body email))),
              data_Table_Columns = Table_Columns (Body_Table (Email_Body email))\<rparr>,
           data_Actions =
             map (\<lambda>a. \<lparr>Instructions = translate m localizer (Instructions a) '''',
                        Action_Button =
                          \<lparr>Button_Text = translate m localizer (Button_Text (Action_Button a)) '''',
                           Button_Link = Button_Link (Action_Button a),
                           Button_Color = Button_Color (Action_Button a)\<rparr>,
                        InvertedButton = InvertedButton a\<rparr>)
               (Actions (Email_Body email)),
           data_Outros = map (\<lambda>s. translate m localizer s '''') (Outros (Email_Body email)),
           data_Attachments = Attachments (Email_Body email)\<rparr>\<rparr>"
  unfolding processTranslations_def Let_def
  by (simp only: range_assign_make range_assign_rows Option.bind.simps list.map_ident)

section \<open>The plain-text loops as concatenations\<close>

lemma foldl_WriteString:
  "foldl (\<lambda>buf x. WriteString buf (f x)) buf xs = buf @ concat (map f xs)"
  by (induction xs arbitrary: buf) (simp_all add: WriteString_def)

lemma write_paragraphs:
  "foldl (\<lambda>buf s. let txt = translate m localizer s '''' in
                    WriteString buf (txt @ ''\<newline>\<newline>'')) buf xs =
   buf @ concat (map (\<lambda>s. translate m localizer s '''' @ ''\<newline>\<newline>'') xs)"
  unfolding Let_def by (rule foldl_WriteString)

lemma write_dictionary:
  "foldl (\<lambda>buf entry. let key = translate m localizer (Key entry) '''' in
                        WriteString buf (key @ '': '' @ Value entry @ ''\<newline>'')) buf xs =
   buf @ concat (map (\<lambda>en. translate m localizer (Key en) '''' @ '': '' @ Value en @ ''\<newline>'') xs)"
  unfolding Let_def by (rule foldl_WriteString)

lemma write_actions:
  "foldl (\<lambda>buf action.
            let instructions = translate m localizer (Instructions action) '''';
                buttonText = translate m localizer (Button_Text (Action_Button action)) ''''
            in WriteString buf
                 (instructions @ ''\<newline>'' @ buttonText @ '': '' @
                  Button_Link (Action_Button action) @ ''\<newline>\<newline>'')) buf xs =
   buf @ concat (map (\<lambda>a. translate m localizer (Instructions a) '''' @ ''\<newline>'' @
                          translate m localizer (Button_Text (Action_Button a)) '''' @ '': '' @
                          Button_Link (Action_Button a) @ ''\<newline>\<newline>'') xs)"
  unfolding Let_def by (rule foldl_WriteString)

lemma write_attachment:
  "(let buf = WriteString buf (''  - '' @ Attachment_Name attachment);
        buf = (if Attachment_Type attachment \<noteq> '''' \<or> Attachment_Size attachment \<noteq> '''' then
                 (let buf = WriteString buf '' ('';
                      buf = (if Attachment_Type attachment \<noteq> '''' then
                               WriteString buf (Attachment_Type attachment)
                             else buf);
                      buf = (if Attachment_Size attachment \<noteq> '''' then
                               (let buf = (if Attachment_Type attachment \<noteq> '''' then
                                             WriteString buf '', ''
                                           else buf)
                                in WriteString buf (Attachment_Size attachment))
                             else buf)
                  in WriteString buf '')'')
               else buf)
    in WriteString buf (''\<newline>    '' @ Attachment_URL attachment @ ''\<newline>'')) =
   WriteString buf (spec_attachment_lines attachment)"
  by (simp add: Let_def WriteString_def spec_attachment_lines_def)

lemma write_attachments:
  "foldl (\<lambda>buf attachment.
            let buf = WriteString buf (''  - '' @ Attachment_Name attachment);
                buf = (if Attachment_Type attachment \<noteq> '''' \<or> Attachment_Size attachment \<noteq> '''' then
                         (let buf = WriteString buf '' ('';
                              buf = (if Attachment_Type attachment \<noteq> '''' then
                                       WriteString buf (Attachment_Type attachment)
                                     else buf);
                              buf = (if Attachment_Size attachment \<noteq> '''' then
                                       (let buf = (if Attachment_Type attachment \<noteq> '''' then
                                                     WriteString buf '', ''
                                                   else buf)
                                        in WriteString buf (Attachment_Size attachment))
                                     else buf)
                          in WriteString buf '')'')
                       else buf)
            in WriteString buf (''\<newline>    '' @ Attachment_URL attachment @ ''\<newline>'')) buf xs =
   buf @ concat (map spec_attachment_lines xs)"
  by (simp only: write_attachment foldl_WriteString)

text \<open>The document of \<open>GeneratePlainText\<close>, section by section.\<close>

lemma GeneratePlainText_eq:
  "GeneratePlainText m email lang =
     (let l = NewLocalizer (Mailer_bundle m) lang; b = Email_Body email in
      (translate m l (Greeting b) ''greeting'' @ '' '' @ Body_Name b @ '',\<newline>\<newline>'' @
       (if Title b \<noteq> '''' then translate m l (Title b) '''' @ ''\<newline>\<newline>'' else '''') @
       concat (map (\<lambda>s. translate m l s '''' @ ''\<newline>\<newline>'') (Intros b)) @
       concat (map (\<lambda>en. translate m l (Key en) '''' @ '': '' @ Value en @ ''\<newline>'') (Dictionary b)) @
       (if Dictionary b = [] then '''' else ''\<newline>'') @
       concat (map (\<lambda>a. translate m l (Instructions a) '''' @ ''\<newline>'' @
                          translate m l (Button_Text (Action_Button a)) '''' @ '': '' @
                          Button_Link (Action_Button a) @ ''\<newline>\<newline>'') (Actions b)) @
       concat (map (\<lambda>s. translate m l s '''' @ ''\<newline>\<newline>'') (Outros b)) @
       spec_attachments_block (Attachments b) @
       spec_signature_block (translate m l (Signature b) ''signature'')
         (Product_Name (Mailer_product m))
         (translate m l (Product_Copyright (Mailer_product m)) ''product.copyright''),
       None, m))"
  unfolding GeneratePlainText_def
  apply (simp only: write_paragraphs write_dictionary write_actions write_attachments)
  apply (simp add: Let_def WriteString_def spec_attachments_block_def spec_signature_block_def)
  done

text \<open>Document and error of \<open>GenerateHTML\<close>, without the mailer it returns.\<close>

lemma GenerateHTML_doc_err:
  "map_option (\<lambda>r. (fst r, fst (snd r))) (GenerateHTML m e lang) =
   map_option
     (\<lambda>d. case Execute (Mailer_template m) d of
             (buf, err) \<Rightarrow>
               if err \<noteq> None then
                 ('''', Some (Errorf_w ''failed to execute email template: '' (the err)))
               else (buf, None))
     (processTranslations m e (NewLocalizer (Mailer_bundle m) lang))"
  by (simp add: GenerateHTML_def processTranslations_eq split: prod.split)

section \<open>The translator's policy\<close>

text \<open>
  C1. \<open>translate\<close> is a total function and follows the four steps for every key, default
  key and localizer: an empty key with a non-empty default key resolves as the default
  key does; an empty key with no default key gives the empty string, whatever the
  localizer is; a key the localizer knows gives the localized text; a key whose lookup
  fails comes back unchanged. With no catalog loaded, every key resolves to itself.
\<close>

theorem translate_policy:
  "(key = '''' \<and> defaultKey \<noteq> '''' \<longrightarrow>
      translate m l key defaultKey = translate m l defaultKey '''') \<and>
   translate m l '''' '''' = '''' \<and>
   (ka \<noteq> '''' \<and> Localize l ka = (localized, None) \<longrightarrow> translate m l ka da = localized) \<and>
   (kb \<noteq> '''' \<and> Localize l kb = (r, Some err) \<longrightarrow> translate m l kb db = kb) \<and>
   translate m (NewLocalizer NewBundle lang) k '''' = k"
proof -
  have subst: "key = '''' \<and> defaultKey \<noteq> '''' \<longrightarrow>
      translate m l key defaultKey = translate m l defaultKey ''''"
    by (simp add: translate_def)
  have empty: "translate m l '''' '''' = ''''"
    by (simp add: translate_def)
  have hit: "ka \<noteq> '''' \<and> Localize l ka = (localized, None) \<longrightarrow> translate m l ka da = localized"
    by (simp add: translate_def)
  have miss: "kb \<noteq> '''' \<and> Localize l kb = (r, Some err) \<longrightarrow> translate m l kb db = kb"
    by (simp add: translate_def)
  have unloaded: "translate m (NewLocalizer NewBundle lang) k '''' = k"
    by (simp add: translate_def NewLocalizer_def NewBundle_def Localize_def)
  from subst empty hit miss unloaded show ?thesis by blast
qed

theorem translate_policy_witness:
  "translate acme_mailer (NewLocalizer en_bundle ''en'') '''' ''greeting'' =
     translate acme_mailer (NewLocalizer en_bundle ''en'') ''greeting'' '''' \<and>
   translate acme_mailer (NewLocalizer en_bundle ''en'') ''greeting'' ''x'' = ''Hello'' \<and>
   translate acme_mailer (NewLocalizer en_bundle ''en'') ''custom.missing.key'' ''greeting'' =
     ''custom.missing.key'' \<and>
   translate acme_mailer (NewLocalizer NewBundle ''zh'') ''Hi there'' '''' = ''Hi there''"
  using translate_policy [where key = "''''" and defaultKey = "''greeting''"
      and m = acme_mailer and l = "NewLocalizer en_bundle ''en''"
      and ka = "''greeting''" and localized = "''Hello''" and da = "''x''"
      and kb = "''custom.missing.key''" and r = "''''"
      and err = "ErrorString ''message custom.missing.key not found''" and db = "''greeting''"
      and lang = "''zh''" and k = "''Hi there''"]
  by (simp add: Localize_def NewLocalizer_def en_bundle_def NewBundle_def)

section \<open>Transport attachments\<close>

text \<open>
  C2. Two emails with the same body, hence differing in their \<open>SMTPAttachments\<close> only,
  render alike: \<open>GenerateHTML\<close> gives the same result for both, and so does
  \<open>GeneratePlainText\<close>, for every mailer and language. File names, content bytes and MIME
  types of transport attachments have no influence on either document.
\<close>

theorem transport_attachments_invisible:
  "Email_Body e1 = Email_Body e2 \<Longrightarrow>
   GenerateHTML m e1 lang = GenerateHTML m e2 lang \<and>
   GeneratePlainText m e1 lang = GeneratePlainText m e2 lang"
  by (simp add: GenerateHTML_def processTranslations_eq GeneratePlainText_eq)

theorem transport_attachments_invisible_witness:
  "Email_Body (welcome_email\<lparr>SMTPAttachments := [invoice_file]\<rparr>) = Email_Body welcome_email \<and>
   SMTPAttachments (welcome_email\<lparr>SMTPAttachments := [invoice_file]\<rparr>) \<noteq>
     SMTPAttachments welcome_email \<and>
   GenerateHTML acme_mailer (welcome_email\<lparr>SMTPAttachments := [invoice_file]\<rparr>) ''en'' =
     GenerateHTML acme_mailer welcome_email ''en'' \<and>
   GeneratePlainText acme_mailer (welcome_email\<lparr>SMTPAttachments := [invoice_file]\<rparr>) ''en'' =
     GeneratePlainText acme_mailer welcome_email ''en''"
proof -
  have same: "Email_Body (welcome_email\<lparr>SMTPAttachments := [invoice_file]\<rparr>) = Email_Body welcome_email"
    by simp
  have differ: "SMTPAttachments (welcome_email\<lparr>SMTPAttachments := [invoice_file]\<rparr>) \<noteq>
      SMTPAttachments welcome_email"
    by (simp add: welcome_email_def)
  from same differ transport_attachments_invisible [OF same, of acme_mailer "''en''"]
  show ?thesis by blast
qed

section \<open>One resolved context for both serializers\<close>

text \<open>
  C3. For every mailer, email and language there is one resolved context: it is what
  \<open>GenerateHTML\<close> hands to the template, and the plain-text document is the line layout of
  its strings (greeting, title, intros, dictionary keys, instructions and button texts of
  the actions, outros, signature, copyright). The two paths differ in layout only; the
  title line is laid out when the email has a title.
\<close>

theorem cross_format_consistency:
  "\<exists>d. processTranslations m e (NewLocalizer (Mailer_bundle m) lang) = Some d \<and>
       GenerateHTML m e lang =
         Some (case Execute (Mailer_template m) d of
                 (doc, None) \<Rightarrow> (doc, None, m)
               | (doc, Some err) \<Rightarrow>
                   ('''', Some (Errorf_w ''failed to execute email template: '' err), m)) \<and>
       fst (GeneratePlainText m e lang) = spec_plain_layout (Title (Email_Body e) \<noteq> '''') d"
proof -
  obtain d where d: "processTranslations m e (NewLocalizer (Mailer_bundle m) lang) = Some d"
    by (simp add: processTranslations_eq)
  obtain buf x where ex: "Execute (Mailer_template m) d = (buf, x)"
    by (cases "Execute (Mailer_template m) d")
  have html: "GenerateHTML m e lang =
      Some (case Execute (Mailer_template m) d of
              (doc, None) \<Rightarrow> (doc, None, m)
            | (doc, Some err) \<Rightarrow>
                ('''', Some (Errorf_w ''failed to execute email template: '' err), m))"
    using d ex by (cases x) (simp_all add: GenerateHTML_def)
  have plain: "fst (GeneratePlainText m e lang) = spec_plain_layout (Title (Email_Body e) \<noteq> '''') d"
    using d
    by (auto simp add: processTranslations_eq GeneratePlainText_eq spec_plain_layout_def
        Let_def comp_def)
  from d html plain show ?thesis by blast
qed

theorem cross_format_consistency_witness:
  "\<exists>d. processTranslations acme_mailer welcome_email (NewLocalizer en_bundle ''en'') = Some d \<and>
       GenerateHTML acme_mailer welcome_email ''en'' =
         Some (case Execute title_template d of
                 (doc, None) \<Rightarrow> (doc, None, acme_mailer)
               | (doc, Some err) \<Rightarrow>
                   ('''', Some (Errorf_w ''failed to execute email template: '' err), acme_mailer)) \<and>
       fst (GeneratePlainText acme_mailer welcome_email ''en'') = spec_plain_layout True d"
proof -
  have bdl: "Mailer_bundle acme_mailer = en_bundle"
    by (simp add: acme_mailer_def)
  have tmpl: "Mailer_template acme_mailer = title_template"
    by (simp add: acme_mailer_def)
  have title: "(Title (Email_Body welcome_email) \<noteq> '''') = True"
    by (simp add: welcome_email_def)
  show ?thesis
    using cross_format_consistency [of acme_mailer welcome_email "''en''"]
    unfolding bdl tmpl title .
qed

section \<open>Plain text never fails\<close>

text \<open>
  C4. \<open>GeneratePlainText\<close> is a total function whose error is nil for every mailer, email
  and language. For an email with an empty body the document is the greeting line
  followed by the signature block.
\<close>

theorem GeneratePlainText_never_fails:
  "fst (snd (GeneratePlainText m e lang)) = None \<and>
   fst (GeneratePlainText m \<lparr>Email_Body = zero_Body, SMTPAttachments = atts\<rparr> lang) =
     translate m (NewLocalizer (Mailer_bundle m) lang) '''' ''greeting'' @ '' ,\<newline>\<newline>'' @
     spec_signature_block
       (translate m (NewLocalizer (Mailer_bundle m) lang) '''' ''signature'')
       (Product_Name (Mailer_product m))
       (translate m (NewLocalizer (Mailer_bundle m) lang)
          (Product_Copyright (Mailer_product m)) ''product.copyright'')"
  by (simp add: GeneratePlainText_eq Let_def zero_Body_def spec_attachments_block_def)

theorem GeneratePlainText_never_fails_witness:
  "fst (snd (GeneratePlainText acme_mailer welcome_email ''en'')) = None \<and>
   fst (GeneratePlainText acme_mailer \<lparr>Email_Body = zero_Body, SMTPAttachments = [invoice_file]\<rparr> ''en'') =
     ''Hello ,\<newline>\<newline>signature,\<newline>Acme\<newline>\<newline>product.copyright''"
  using GeneratePlainText_never_fails [of acme_mailer welcome_email "''en''" "[invoice_file]"]
  by (simp add: translate_def Localize_def NewLocalizer_def en_bundle_def NewBundle_def
      acme_mailer_def acme_product_def spec_signature_block_def)

section \<open>The title line\<close>




section \<open>Default keys\<close>

text \<open>
  C6. In the context handed to the template, the greeting is resolved with the default
  key \<open>greeting\<close>, the signature with \<open>signature\<close> and the copyright of the product with
  \<open>product.copyright\<close>; the title, the intros and outros, the keys of the dictionary and
  of the table cells, and the instructions and button texts of the actions are resolved
  with no default key. The plain-text document is laid out from the same strings. An
  empty greeting, signature or copyright renders as its default key does, in both
  documents, and an empty field without a default key resolves to the empty string.
\<close>

theorem default_keys:
  "let l = NewLocalizer (Mailer_bundle m) lang; b = Email_Body e; p = Mailer_product m in
   (\<exists>d. processTranslations m e l = Some d \<and>
      data_Greeting (data_Body d) = translate m l (Greeting b) ''greeting'' \<and>
      data_Signature (data_Body d) = translate m l (Signature b) ''signature'' \<and>
      data_Product_Copyright (data_Product d) =
        translate m l (Product_Copyright p) ''product.copyright'' \<and>
      data_Title (data_Body d) = translate m l (Title b) '''' \<and>
      data_Intros (data_Body d) = map (\<lambda>s. translate m l s '''') (Intros b) \<and>
      data_Outros (data_Body d) = map (\<lambda>s. translate m l s '''') (Outros b) \<and>
      map Key (data_Dictionary (data_Body d)) =
        map (\<lambda>en. translate m l (Key en) '''') (Dictionary b) \<and>
      map (map Key) (data_Table_Data (data_Table (data_Body d))) =
        map (map (\<lambda>c. translate m l (Key c) '''')) (Table_Data (Body_Table b)) \<and>
      map Instructions (data_Actions (data_Body d)) =
        map (\<lambda>a. translate m l (Instructions a) '''') (Actions b) \<and>
      map (\<lambda>a. Button_Text (Action_Button a)) (data_Actions (data_Body d)) =
        map (\<lambda>a. translate m l (Button_Text (Action_Button a)) '''') (Actions b) \<and>
      fst (GeneratePlainText m e lang) = spec_plain_layout (Title b \<noteq> '''') d) \<and>
   translate m l '''' ''greeting'' = translate m l ''greeting'' '''' \<and>
   translate m l '''' ''signature'' = translate m l ''signature'' '''' \<and>
   translate m l '''' ''product.copyright'' = translate m l ''product.copyright'' '''' \<and>
   translate m l '''' '''' = '''' \<and>
   GenerateHTML m (e\<lparr>Email_Body := b\<lparr>Greeting := ''''\<rparr>\<rparr>) lang =
     GenerateHTML m (e\<lparr>Email_Body := b\<lparr>Greeting := ''greeting''\<rparr>\<rparr>) lang \<and>
   GeneratePlainText m (e\<lparr>Email_Body := b\<lparr>Greeting := ''''\<rparr>\<rparr>) lang =
     GeneratePlainText m (e\<lparr>Email_Body := b\<lparr>Greeting := ''greeting''\<rparr>\<rparr>) lang \<and>
   GenerateHTML m (e\<lparr>Email_Body := b\<lparr>Signature := ''''\<rparr>\<rparr>) lang =
     GenerateHTML m (e\<lparr>Email_Body := b\<lparr>Signature := ''signature''\<rparr>\<rparr>) lang \<and>
   GeneratePlainText m (e\<lparr>Email_Body := b\<lparr>Signature := ''''\<rparr>\<rparr>) lang =
     GeneratePlainText m (e\<lparr>Email_Body := b\<lparr>Signature := ''signature''\<rparr>\<rparr>) lang \<and>
   map_option (\<lambda>r. (fst r, fst (snd r))) (GenerateHTML (m\<lparr>Mailer_product := p\<lparr>Product_Copyright := ''''\<rparr>\<rparr>) e lang) =
     map_option (\<lambda>r. (fst r, fst (snd r)))
       (GenerateHTML (m\<lparr>Mailer_product := p\<lparr>Product_Copyright := ''product.copyright''\<rparr>\<rparr>) e lang) \<and>
   fst (GeneratePlainText (m\<lparr>Mailer_product := p\<lparr>Product_Copyright := ''''\<rparr>\<rparr>) e lang) =
     fst (GeneratePlainText (m\<lparr>Mailer_product := p\<lparr>Product_Copyright := ''product.copyright''\<rparr>\<rparr>) e lang)"
proof -
  define l where "l = NewLocalizer (Mailer_bundle m) lang"
  define b where "b = Email_Body e"
  define p where "p = Mailer_product m"
  obtain d where d: "processTranslations m e l = Some d"
    by (simp add: processTranslations_eq)
  have f1: "data_Greeting (data_Body d) = translate m l (Greeting b) ''greeting''"
    using d by (auto simp add: processTranslations_eq b_def)
  have f2: "data_Signature (data_Body d) = translate m l (Signature b) ''signature''"
    using d by (auto simp add: processTranslations_eq b_def)
  have f3: "data_Product_Copyright (data_Product d) =
      translate m l (Product_Copyright p) ''product.copyright''"
    using d by (auto simp add: processTranslations_eq p_def)
  have f4: "data_Title (data_Body d) = translate m l (Title b) ''''"
    using d by (auto simp add: processTranslations_eq b_def)
  have f5: "data_Intros (data_Body d) = map (\<lambda>s. translate m l s '''') (Intros b)"
    using d by (auto simp add: processTranslations_eq b_def)
  have f6: "data_Outros (data_Body d) = map (\<lambda>s. translate m l s '''') (Outros b)"
    using d by (auto simp add: processTranslations_eq b_def)
  have f7: "map Key (data_Dictionary (data_Body d)) =
      map (\<lambda>en. translate m l (Key en) '''') (Dictionary b)"
    using d by (auto simp add: processTranslations_eq b_def comp_def)
  have f8: "map (map Key) (data_Table_Data (data_Table (data_Body d))) =
      map (map (\<lambda>c. translate m l (Key c) '''')) (Table_Data (Body_Table b))"
    using d by (auto simp add: processTranslations_eq b_def comp_def)
  have f9: "map Instructions (data_Actions (data_Body d)) =
      map (\<lambda>a. translate m l (Instructions a) '''') (Actions b)"
    using d by (auto simp add: processTranslations_eq b_def comp_def)
  have f10: "map (\<lambda>a. Button_Text (Action_Button a)) (data_Actions (data_Body d)) =
      map (\<lambda>a. translate m l (Button_Text (Action_Button a)) '''') (Actions b)"
    using d by (auto simp add: processTranslations_eq b_def comp_def)
  have f11: "fst (GeneratePlainText m e lang) = spec_plain_layout (Title b \<noteq> '''') d"
    using d
    by (auto simp add: processTranslations_eq GeneratePlainText_eq spec_plain_layout_def
        Let_def comp_def l_def b_def)
  have ctx: "\<exists>d. processTranslations m e l = Some d \<and>
      data_Greeting (data_Body d) = translate m l (Greeting b) ''greeting'' \<and>
      data_Signature (data_Body d) = translate m l (Signature b) ''signature'' \<and>
      data_Product_Copyright (data_Product d) =
        translate m l (Product_Copyright p) ''product.copyright'' \<and>
      data_Title (data_Body d) = translate m l (Title b) '''' \<and>
      data_Intros (data_Body d) = map (\<lambda>s. translate m l s '''') (Intros b) \<and>
      data_Outros (data_Body d) = map (\<lambda>s. translate m l s '''') (Outros b) \<and>
      map Key (data_Dictionary (data_Body d)) =
        map (\<lambda>en. translate m l (Key en) '''') (Dictionary b) \<and>
      map (map Key) (data_Table_Data (data_Table (data_Body d))) =
        map (map (\<lambda>c. translate m l (Key c) '''')) (Table_Data (Body_Table b)) \<and>
      map Instructions (data_Actions (data_Body d)) =
        map (\<lambda>a. translate m l (Instructions a) '''') (Actions b) \<and>
      map (\<lambda>a. Button_Text (Action_Button a)) (data_Actions (data_Body d)) =
        map (\<lambda>a. translate m l (Button_Text (Action_Button a)) '''') (Actions b) \<and>
      fst (GeneratePlainText m e lang) = spec_plain_layout (Title b \<noteq> '''') d"
    using d f1 f2 f3 f4 f5 f6 f7 f8 f9 f10 f11 by (intro exI [of _ d]) (simp only: simp_thms)
  have t1: "translate m l '''' ''greeting'' = translate m l ''greeting'' ''''"
    by (simp add: translate_def)
  have t2: "translate m l '''' ''signature'' = translate m l ''signature'' ''''"
    by (simp add: translate_def)
  have t3: "translate m l '''' ''product.copyright'' = translate m l ''product.copyright'' ''''"
    by (simp add: translate_def)
  have t4: "translate m l '''' '''' = ''''"
    by (simp add: translate_def)
  have tg: "\<And>m' l'. translate m' l' '''' ''greeting'' = translate m' l' ''greeting'' ''greeting''"
    by (simp add: translate_def)
  have ts: "\<And>m' l'. translate m' l' '''' ''signature'' = translate m' l' ''signature'' ''signature''"
    by (simp add: translate_def)
  have tc: "\<And>m' m'' l'. translate m' l' '''' ''product.copyright'' =
      translate m'' l' ''product.copyright'' ''product.copyright''"
    by (simp add: translate_def)
  have g1: "GenerateHTML m (e\<lparr>Email_Body := b\<lparr>Greeting := ''''\<rparr>\<rparr>) lang =
      GenerateHTML m (e\<lparr>Email_Body := b\<lparr>Greeting := ''greeting''\<rparr>\<rparr>) lang"
    by (simp add: GenerateHTML_def processTranslations_eq tg)
  have g2: "GeneratePlainText m (e\<lparr>Email_Body := b\<lparr>Greeting := ''''\<rparr>\<rparr>) lang =
      GeneratePlainText m (e\<lparr>Email_Body := b\<lparr>Greeting := ''greeting''\<rparr>\<rparr>) lang"
    by (simp add: GeneratePlainText_eq Let_def tg)
  have s1: "GenerateHTML m (e\<lparr>Email_Body := b\<lparr>Signature := ''''\<rparr>\<rparr>) lang =
      GenerateHTML m (e\<lparr>Email_Body := b\<lparr>Signature := ''signature''\<rparr>\<rparr>) lang"
    by (simp add: GenerateHTML_def processTranslations_eq ts)
  have s2: "GeneratePlainText m (e\<lparr>Email_Body := b\<lparr>Signature := ''''\<rparr>\<rparr>) lang =
      GeneratePlainText m (e\<lparr>Email_Body := b\<lparr>Signature := ''signature''\<rparr>\<rparr>) lang"
    by (simp add: GeneratePlainText_eq Let_def ts)
  have tm: "\<And>m' m'' l' k dk. translate m' l' k dk = translate m'' l' k dk"
    by (simp add: translate_def)
  have c1: "map_option (\<lambda>r. (fst r, fst (snd r))) (GenerateHTML (m\<lparr>Mailer_product := p\<lparr>Product_Copyright := ''''\<rparr>\<rparr>) e lang) =
      map_option (\<lambda>r. (fst r, fst (snd r)))
        (GenerateHTML (m\<lparr>Mailer_product := p\<lparr>Product_Copyright := ''product.copyright''\<rparr>\<rparr>) e lang)"
    by (simp add: GenerateHTML_doc_err processTranslations_eq translate_def)
  have c2: "fst (GeneratePlainText (m\<lparr>Mailer_product := p\<lparr>Product_Copyright := ''''\<rparr>\<rparr>) e lang) =
      fst (GeneratePlainText (m\<lparr>Mailer_product := p\<lparr>Product_Copyright := ''product.copyright''\<rparr>\<rparr>) e lang)"
    by (simp add: GeneratePlainText_eq Let_def translate_def)
  from ctx t1 t2 t3 t4 g1 g2 s1 s2 c1 c2 show ?thesis
    unfolding Let_def l_def b_def p_def by (simp only: simp_thms)
qed

theorem default_keys_witness:
  "\<exists>d. processTranslations acme_mailer welcome_email (NewLocalizer en_bundle ''en'') = Some d \<and>
       data_Greeting (data_Body d) = ''Hello'' \<and>
       data_Signature (data_Body d) = ''signature'' \<and>
       data_Product_Copyright (data_Product d) = ''product.copyright'' \<and>
       data_Title (data_Body d) = ''email.title'' \<and>
       data_Intros (data_Body d) = [''Welcome aboard'', '''']"
proof -
  have bdl: "Mailer_bundle acme_mailer = en_bundle"
    by (simp add: acme_mailer_def)
  from default_keys [where m = acme_mailer and lang = "''en''" and e = welcome_email]
  obtain d where
    d: "processTranslations acme_mailer welcome_email (NewLocalizer en_bundle ''en'') = Some d" and
    g: "data_Greeting (data_Body d) =
          translate acme_mailer (NewLocalizer en_bundle ''en'')
            (Greeting (Email_Body welcome_email)) ''greeting''" and
    s: "data_Signature (data_Body d) =
          translate acme_mailer (NewLocalizer en_bundle ''en'')
            (Signature (Email_Body welcome_email)) ''signature''" and
    c: "data_Product_Copyright (data_Product d) =
          translate acme_mailer (NewLocalizer en_bundle ''en'')
            (Product_Copyright (Mailer_product acme_mailer)) ''product.copyright''" and
    t: "data_Title (data_Body d) =
          translate acme_mailer (NewLocalizer en_bundle ''en'')
            (Title (Email_Body welcome_email)) ''''" and
    i: "data_Intros (data_Body d) =
          map (\<lambda>s. translate acme_mailer (NewLocalizer en_bundle ''en'') s '''')
            (Intros (Email_Body welcome_email))"
    unfolding Let_def bdl by blast
  have g': "translate acme_mailer (NewLocalizer en_bundle ''en'')
      (Greeting (Email_Body welcome_email)) ''greeting'' = ''Hello''"
    by (simp add: welcome_email_def zero_Body_def translate_def Localize_def NewLocalizer_def
        en_bundle_def)
  have s': "translate acme_mailer (NewLocalizer en_bundle ''en'')
      (Signature (Email_Body welcome_email)) ''signature'' = ''signature''"
    by (simp add: welcome_email_def zero_Body_def translate_def Localize_def NewLocalizer_def
        en_bundle_def NewBundle_def)
  have c': "translate acme_mailer (NewLocalizer en_bundle ''en'')
      (Product_Copyright (Mailer_product acme_mailer)) ''product.copyright'' = ''product.copyright''"
    by (simp add: acme_mailer_def acme_product_def translate_def Localize_def NewLocalizer_def
        en_bundle_def NewBundle_def)
  have t': "translate acme_mailer (NewLocalizer en_bundle ''en'')
      (Title (Email_Body welcome_email)) '''' = ''email.title''"
    by (simp add: welcome_email_def zero_Body_def translate_def Localize_def NewLocalizer_def
        en_bundle_def NewBundle_def)
  have i': "map (\<lambda>s. translate acme_mailer (NewLocalizer en_bundle ''en'') s '''')
      (Intros (Email_Body welcome_email)) = [''Welcome aboard'', '''']"
    by (simp add: welcome_email_def zero_Body_def translate_def Localize_def NewLocalizer_def
        en_bundle_def NewBundle_def)
  from d g s c t i show ?thesis
    unfolding g' s' c' t' i' by blast
qed

section \<open>The attachment group\<close>



section \<open>Errors of the HTML serializer\<close>

text \<open>
  C8. \<open>GenerateHTML\<close> does not panic. It returns a non-nil error exactly when the execution
  of the template on the resolved context returns one; the document is then the empty
  string, whatever the template had written, and the error wraps the template's error.
  When the execution succeeds the error is nil and the document is what the template wrote.
\<close>

theorem GenerateHTML_error_iff_execute_fails:
  "\<exists>d doc err.
     processTranslations m e (NewLocalizer (Mailer_bundle m) lang) = Some d \<and>
     GenerateHTML m e lang = Some (doc, err, m) \<and>
     ((err \<noteq> None) = (snd (Execute (Mailer_template m) d) \<noteq> None)) \<and>
     (\<forall>x. snd (Execute (Mailer_template m) d) = Some x \<longrightarrow>
        doc = '''' \<and> err = Some (Errorf_w ''failed to execute email template: '' x)) \<and>
     (snd (Execute (Mailer_template m) d) = None \<longrightarrow>
        doc = fst (Execute (Mailer_template m) d) \<and> err = None)"
proof -
  obtain d where d: "processTranslations m e (NewLocalizer (Mailer_bundle m) lang) = Some d"
    by (simp add: processTranslations_eq)
  obtain buf x where ex: "Execute (Mailer_template m) d = (buf, x)"
    by (cases "Execute (Mailer_template m) d")
  show ?thesis
  proof (cases x)
    case None
    with d ex have "GenerateHTML m e lang = Some (buf, None, m)"
      by (simp add: GenerateHTML_def)
    with d ex None show ?thesis by simp
  next
    case (Some y)
    with d ex have "GenerateHTML m e lang =
        Some ('''', Some (Errorf_w ''failed to execute email template: '' y), m)"
      by (simp add: GenerateHTML_def)
    with d ex Some show ?thesis by simp
  qed
qed

theorem GenerateHTML_error_iff_execute_fails_witness:
  "GenerateHTML failing_mailer welcome_email ''en'' =
     Some ('''',
           Some (Wrapped ''failed to execute email template: no such field''
                   (ErrorString ''no such field'')),
           failing_mailer)"
proof -
  obtain d doc err where
    r: "GenerateHTML failing_mailer welcome_email ''en'' = Some (doc, err, failing_mailer)" and
    f: "\<forall>x. snd (Execute (Mailer_template failing_mailer) d) = Some x \<longrightarrow>
          doc = '''' \<and> err = Some (Errorf_w ''failed to execute email template: '' x)"
    using GenerateHTML_error_iff_execute_fails [of failing_mailer welcome_email "''en''"] by blast
  have "snd (Execute (Mailer_template failing_mailer) d) = Some (ErrorString ''no such field'')"
    by (simp add: Execute_def failing_mailer_def failing_template_def)
  with f have "doc = '''' \<and>
      err = Some (Errorf_w ''failed to execute email template: '' (ErrorString ''no such field''))"
    by blast
  with r show ?thesis by (simp add: Errorf_w_def)
qed

section \<open>The mailer is left as it was\<close>



section \<open>The template of a new mailer\<close>

text \<open>
  C10. \<open>New\<close> chooses the template from the configuration its options leave, in a fixed
  order. A parsed custom template is taken as it is, whatever else is configured.
  Without one, a custom template text that is not empty is parsed. Without either, a
  custom file system together with a path that is not empty is read and parsed. In
  every other case the embedded \<open>templates/default.html\<close> is read and parsed. A failure to
  read or to parse is a panic with the message of that step.
\<close>

theorem New_template_priority:
  "let config = apply_options opts;
       mk = (\<lambda>t. \<lparr>Mailer_bundle = NewBundle, Mailer_product = p, Mailer_theme = th,
                   Mailer_template = t, Mailer_customCSS = CustomCSS config\<rparr>)
   in
   (\<forall>t. CustomTemplate config = Some t \<longrightarrow> New Parse tfs p th opts = Inr (mk t)) \<and>
   (CustomTemplate config = None \<and> CustomTemplateText config \<noteq> '''' \<longrightarrow>
      New Parse tfs p th opts =
        (case Parse (CustomTemplateText config) of
           Inl err \<Rightarrow> Inl (''failed to parse custom template: '' @ Error err)
         | Inr t \<Rightarrow> Inr (mk t))) \<and>
   (\<forall>fsys. CustomTemplate config = None \<and> CustomTemplateText config = '''' \<and>
      CustomTemplateFS config = Some fsys \<and> CustomTemplatePath config \<noteq> '''' \<longrightarrow>
      New Parse tfs p th opts =
        (case ReadFile fsys (CustomTemplatePath config) of
           Inl err \<Rightarrow> Inl (''failed to read custom template file: '' @ Error err)
         | Inr content \<Rightarrow>
             (case Parse content of
                Inl err \<Rightarrow> Inl (''failed to parse custom template file: '' @ Error err)
              | Inr t \<Rightarrow> Inr (mk t)))) \<and>
   (CustomTemplate config = None \<and> CustomTemplateText config = '''' \<and>
      (CustomTemplateFS config = None \<or> CustomTemplatePath config = '''') \<longrightarrow>
      New Parse tfs p th opts =
        (case ReadFile tfs ''templates/default.html'' of
           Inl err \<Rightarrow> Inl (''failed to read default template: '' @ Error err)
         | Inr content \<Rightarrow>
             (case Parse content of
                Inl err \<Rightarrow> Inl (''failed to parse default template: '' @ Error err)
              | Inr t \<Rightarrow> Inr (mk t))))"
proof -
  define config where "config = apply_options opts"
  define mk where "mk = (\<lambda>t. \<lparr>Mailer_bundle = NewBundle, Mailer_product = p, Mailer_theme = th,
                   Mailer_template = t, Mailer_customCSS = CustomCSS config\<rparr>)"
  have parsed: "\<forall>t. CustomTemplate config = Some t \<longrightarrow> New Parse tfs p th opts = Inr (mk t)"
    by (simp add: New_def Let_def config_def mk_def)
  have text_given: "CustomTemplate config = None \<and> CustomTemplateText config \<noteq> '''' \<longrightarrow>
      New Parse tfs p th opts =
        (case Parse (CustomTemplateText config) of
           Inl err \<Rightarrow> Inl (''failed to parse custom template: '' @ Error err)
         | Inr t \<Rightarrow> Inr (mk t))"
    by (simp add: New_def Let_def config_def mk_def split: sum.split)
  have file_given: "\<forall>fsys. CustomTemplate config = None \<and> CustomTemplateText config = '''' \<and>
      CustomTemplateFS config = Some fsys \<and> CustomTemplatePath config \<noteq> '''' \<longrightarrow>
      New Parse tfs p th opts =
        (case ReadFile fsys (CustomTemplatePath config) of
           Inl err \<Rightarrow> Inl (''failed to read custom template file: '' @ Error err)
         | Inr content \<Rightarrow>
             (case Parse content of
                Inl err \<Rightarrow> Inl (''failed to parse custom template file: '' @ Error err)
              | Inr t \<Rightarrow> Inr (mk t)))"
    by (simp add: New_def Let_def config_def mk_def split: sum.split)
  have fallback: "CustomTemplate config = None \<and> CustomTemplateText config = '''' \<and>
      (CustomTemplateFS config = None \<or> CustomTemplatePath config = '''') \<longrightarrow>
      New Parse tfs p th opts =
        (case ReadFile tfs ''templates/default.html'' of
           Inl err \<Rightarrow> Inl (''failed to read default template: '' @ Error err)
         | Inr content \<Rightarrow>
             (case Parse content of
                Inl err \<Rightarrow> Inl (''failed to parse default template: '' @ Error err)
              | Inr t \<Rightarrow> Inr (mk t)))"
    by (auto simp add: New_def Let_def config_def mk_def split: sum.split)
  from parsed text_given file_given fallback show ?thesis
    unfolding Let_def config_def mk_def by (simp only: simp_thms)
qed

theorem New_template_priority_witness:
  "New source_parser embedded_fs acme_product DefaultTheme
     [WithCustomTemplateFile (Some embedded_fs) ''templates/default.html'',
      WithCustomTemplate (Some title_template),
      WithCustomTemplateString ''<b>hi</b>''] =
     Inr \<lparr>Mailer_bundle = NewBundle, Mailer_product = acme_product, Mailer_theme = DefaultTheme,
          Mailer_template = title_template, Mailer_customCSS = ''''\<rparr> \<and>
   New source_parser embedded_fs acme_product DefaultTheme
     [WithCustomTemplateFile (Some embedded_fs) ''missing.html'',
      WithCustomTemplateString ''{{'', WithCustomCSS ''p {}''] =
     Inl ''failed to parse custom template: unclosed action'' \<and>
   New source_parser embedded_fs acme_product DefaultTheme
     [WithCustomTemplateFile (Some embedded_fs) ''missing.html''] =
     Inl ''failed to read custom template file: file does not exist'' \<and>
   New source_parser embedded_fs acme_product DefaultTheme
     [WithCustomTemplateFile (Some embedded_fs) '''', WithCustomCSS ''p {}''] =
     Inr \<lparr>Mailer_bundle = NewBundle, Mailer_product = acme_product, Mailer_theme = DefaultTheme,
          Mailer_template = literal_template ''<html></html>'', Mailer_customCSS = ''p {}''\<rparr>"
proof -
  have a: "New source_parser embedded_fs acme_product DefaultTheme
     [WithCustomTemplateFile (Some embedded_fs) ''templates/default.html'',
      WithCustomTemplate (Some title_template),
      WithCustomTemplateString ''<b>hi</b>''] =
     Inr \<lparr>Mailer_bundle = NewBundle, Mailer_product = acme_product, Mailer_theme = DefaultTheme,
          Mailer_template = title_template, Mailer_customCSS = ''''\<rparr>"
    using New_template_priority [where Parse = source_parser and tfs = embedded_fs
        and p = acme_product and th = DefaultTheme
        and opts = "[WithCustomTemplateFile (Some embedded_fs) ''templates/default.html'',
                     WithCustomTemplate (Some title_template),
                     WithCustomTemplateString ''<b>hi</b>'']"]
    by (simp add: Let_def apply_options_def zero_Config_def WithCustomTemplate_def
        WithCustomTemplateString_def WithCustomTemplateFile_def)
  have b: "New source_parser embedded_fs acme_product DefaultTheme
     [WithCustomTemplateFile (Some embedded_fs) ''missing.html'',
      WithCustomTemplateString ''{{'', WithCustomCSS ''p {}''] =
     Inl ''failed to parse custom template: unclosed action''"
    using New_template_priority [where Parse = source_parser and tfs = embedded_fs
        and p = acme_product and th = DefaultTheme
        and opts = "[WithCustomTemplateFile (Some embedded_fs) ''missing.html'',
                     WithCustomTemplateString ''{{'', WithCustomCSS ''p {}'']"]
    by (simp add: Let_def apply_options_def zero_Config_def WithCustomCSS_def
        WithCustomTemplateString_def WithCustomTemplateFile_def source_parser_def)
  have c: "New source_parser embedded_fs acme_product DefaultTheme
     [WithCustomTemplateFile (Some embedded_fs) ''missing.html''] =
     Inl ''failed to read custom template file: file does not exist''"
    using New_template_priority [where Parse = source_parser and tfs = embedded_fs
        and p = acme_product and th = DefaultTheme
        and opts = "[WithCustomTemplateFile (Some embedded_fs) ''missing.html'']"]
    by (simp add: Let_def apply_options_def zero_Config_def
        WithCustomTemplateFile_def ReadFile_def embedded_fs_def)
  have d: "New source_parser embedded_fs acme_product DefaultTheme
     [WithCustomTemplateFile (Some embedded_fs) '''', WithCustomCSS ''p {}''] =
     Inr \<lparr>Mailer_bundle = NewBundle, Mailer_product = acme_product, Mailer_theme = DefaultTheme,
          Mailer_template = literal_template ''<html></html>'', Mailer_customCSS = ''p {}''\<rparr>"
    using New_template_priority [where Parse = source_parser and tfs = embedded_fs
        and p = acme_product and th = DefaultTheme
        and opts = "[WithCustomTemplateFile (Some embedded_fs) '''', WithCustomCSS ''p {}'']"]
    by (simp add: Let_def apply_options_def zero_Config_def WithCustomCSS_def
        WithCustomTemplateFile_def ReadFile_def embedded_fs_def source_parser_def)
  from a b c d show ?thesis by (simp only: simp_thms)
qed


end
